theory Spec2Isabelle
  imports Main "HOL-Library.Word" "HOL-Library.Signed_Division"
    "HOL-Library.List_Lexorder" "HOL-Library.Product_Lexorder"
begin

unbundle bit_operations_syntax

section \<open>Machine integers and bytes\<close>

text \<open>
  Go's \<open>int32\<close> and \<open>uint32\<close> are 32-bit words: \<open>+\<close>, \<open>-\<close> and \<open>*\<close> wrap around.
  A signed value is read with \<open>sint\<close> and compared with \<open><s\<close> and \<open>\<le>s\<close>; the conversions
  \<open>int32(u)\<close> and \<open>uint32(i)\<close> keep the bits, so they are the identity on the word.
\<close>

type_synonym i32 = "32 word"
type_synonym u32 = "32 word"
type_synonym byte = "8 word"

text \<open>\<open>math.MaxInt32\<close> and \<open>math.MinInt32\<close>.\<close>

definition MaxInt32 :: i32 where
  "MaxInt32 = 0x7FFFFFFF"

definition MinInt32 :: i32 where
  "MinInt32 = 0x80000000"

text \<open>Go's \<open>/\<close> and \<open>%\<close> on \<open>int32\<close> truncate towards zero; a zero divisor panics, which the
  callers below check before they divide.\<close>

definition go_div :: "i32 \<Rightarrow> i32 \<Rightarrow> i32" where
  "go_div a b = word_of_int (sint a sdiv sint b)"

definition go_rem :: "i32 \<Rightarrow> i32 \<Rightarrow> i32" where
  "go_rem a b = word_of_int (sint a smod sint b)"

text \<open>\<open>binary.BigEndian\<close> on a 32-bit value: four bytes, most significant first.\<close>

definition be32 :: "32 word \<Rightarrow> byte list" where
  "be32 w = [ucast (drop_bit 24 w), ucast (drop_bit 16 w), ucast (drop_bit 8 w), ucast w]"

text \<open>\<open>binary.BigEndian.Uint32\<close> reads the first four bytes of its argument (and panics on a
  shorter one; every call below passes at least four).\<close>

fun Uint32 :: "byte list \<Rightarrow> 32 word" where
  "Uint32 (a # b # c # d # _) =
     push_bit 24 (ucast a) OR push_bit 16 (ucast b) OR push_bit 8 (ucast c) OR ucast d"
| "Uint32 _ = 0"

section \<open>The ROI RLE index (roi.go, indexRLE)\<close>

text \<open>\<open>dvid.IndexZYX\<close> is a \<open>[3]int32\<close> holding x, y, z at positions 0, 1, 2.\<close>

record IndexZYX =
  ix :: i32
  iy :: i32
  iz :: i32

text \<open>Modelled from the spec: \<open>dvid.IndexZYX.Bytes\<close> and \<open>dvid.IndexZYX.IndexFromBytes\<close> are
  not among the sources. The spec gives the layout of the stored index: Z, then Y, then X0,
  each four bytes, big-endian.\<close>

definition IndexZYX_Bytes :: "IndexZYX \<Rightarrow> byte list" where
  "IndexZYX_Bytes i = be32 (iz i) @ be32 (iy i) @ be32 (ix i)"

definition IndexZYX_IndexFromBytes :: "byte list \<Rightarrow> IndexZYX option" where
  "IndexZYX_IndexFromBytes b =
     (if length b < 12 then None
      else Some \<lparr>ix = Uint32 (drop 8 b), iy = Uint32 (drop 4 b), iz = Uint32 b\<rparr>)"

record indexRLE =
  start :: IndexZYX
  span :: u32

definition indexRLE_Bytes :: "indexRLE \<Rightarrow> byte list" where
  "indexRLE_Bytes i = IndexZYX_Bytes (start i) @ be32 (span i)"

datatype decode_error = IllegalByteLength nat | StartError

text \<open>\<open>indexRLE.IndexFromBytes\<close>: the receiver is overwritten only on success; the result is
  the decoded index or the error returned.\<close>

definition indexRLE_IndexFromBytes :: "byte list \<Rightarrow> decode_error + indexRLE" where
  "indexRLE_IndexFromBytes b =
     (if length b \<noteq> 16 then Inl (IllegalByteLength (length b))
      else case IndexZYX_IndexFromBytes (take 12 b) of
             None \<Rightarrow> Inl StartError
           | Some s \<Rightarrow> Inr \<lparr>start = s, span = Uint32 (drop 12 b)\<rparr>)"

section \<open>Tuples and block coordinates (roi.go)\<close>

text \<open>\<open>type tuple [4]int32\<close> holds (Z, Y, X0, X1); \<open>dvid.Point3d\<close> and
  \<open>dvid.ChunkPoint3d\<close> are \<open>[3]int32\<close> holding (x, y, z).\<close>

type_synonym tuple = "i32 \<times> i32 \<times> i32 \<times> i32"
type_synonym Point3d = "i32 \<times> i32 \<times> i32"
type_synonym ChunkPoint3d = "i32 \<times> i32 \<times> i32"

fun tuple_less :: "tuple \<Rightarrow> ChunkPoint3d \<Rightarrow> bool" where
  "tuple_less (t0, t1, t2, t3) (b0, b1, b2) =
     (if b2 <s t0 then False
      else if b1 <s t1 then False
      else if b0 <s t3 then False
      else True)"

fun tuple_includes :: "tuple \<Rightarrow> ChunkPoint3d \<Rightarrow> bool" where
  "tuple_includes (t0, t1, t2, t3) (b0, b1, b2) =
     (if t0 \<noteq> b2 then False
      else if t1 \<noteq> b1 then False
      else if b0 <s t2 \<or> t3 <s b0 then False
      else True)"

record Properties =
  BlockSize :: Point3d
  MinZ :: i32
  MaxZ :: i32

datatype panic = IndexOutOfRange | DivideByZero | SliceOutOfRange

text \<open>Modelled from the spec: \<open>dvid.Point3d.Chunk\<close> is not among the sources. By the spec a
  voxel point maps to its block by integer division of each coordinate by the corresponding
  \<open>BlockSize\<close> component; Go's integer division panics on a zero divisor.\<close>

fun Chunk :: "Point3d \<Rightarrow> Point3d \<Rightarrow> panic + ChunkPoint3d" where
  "Chunk (px, py, pz) (bx, by, bz) =
     (if bx = 0 \<or> by = 0 \<or> bz = 0 then Inl DivideByZero
      else Inr (go_div px bx, go_div py by, go_div pz bz))"

text \<open>Modelled from the spec: \<open>dvid.ChunkPoint3d.MinPoint\<close> and \<open>MaxPoint\<close> are not among
  the sources. By the spec they give a block's minimum and maximum voxel.\<close>

fun MinPoint :: "ChunkPoint3d \<Rightarrow> Point3d \<Rightarrow> Point3d" where
  "MinPoint (c0, c1, c2) (bx, by, bz) = (c0 * bx, c1 * by, c2 * bz)"

fun MaxPoint :: "ChunkPoint3d \<Rightarrow> Point3d \<Rightarrow> Point3d" where
  "MaxPoint (c0, c1, c2) (bx, by, bz) =
     ((c0 + 1) * bx - 1, (c1 + 1) * by - 1, (c2 + 1) * bz - 1)"

text \<open>Modelled from the spec: \<open>dvid.ByZYX\<close> is not among the sources. It orders points by z,
  then y, then x; points that compare equal are equal, so the sorted list is unique.\<close>

definition sort_ByZYX :: "Point3d list \<Rightarrow> Point3d list" where
  "sort_ByZYX pts = sort_key (\<lambda>(x, y, z). (sint z, sint y, sint x)) pts"

section \<open>The ordered key-value store\<close>

text \<open>The storage package and the storage context are not among the sources. The store
  here is the one seen through a single (instance, version) context, keyed by the index
  bytes (by the spec \<open>IndexFromKey (KeyFromIndex I) = I\<close>): the key/value pairs committed
  so far, in the order in which they were written.\<close>

type_synonym key = "byte list"
type_synonym store = "(key \<times> byte list) list"

text \<open>Modelled from the spec: \<open>ProcessRange\<close> of the storage package is not among the
  sources. By the spec it calls back for every key in \<open>[lo, hi]\<close>, once, in strictly ascending
  bytewise order; the result is the list of the keys handed to the callback.\<close>

definition ProcessRange :: "key \<Rightarrow> key \<Rightarrow> store \<Rightarrow> key list" where
  "ProcessRange lo hi s = sort (remdups (filter (\<lambda>k. lo \<le> k \<and> k \<le> hi) (map fst s)))"

text \<open>Modelled from the spec: \<open>NewBatch\<close>, the batch's \<open>Put\<close> and \<open>Commit\<close> are not among the
  sources. By the spec a batch collects puts and \<open>Commit\<close> writes them to the store; a commit
  that fails is taken to write nothing.\<close>

definition Commit :: "(key \<times> byte list) list \<Rightarrow> store \<Rightarrow> store" where
  "Commit batch s = s @ batch"

text \<open>Modelled from the spec: \<open>dvid.EmptyValue\<close> is not among the sources. By the spec the
  value bytes of an RLE key are empty.\<close>

definition EmptyValue :: "byte list" where
  "EmptyValue = []"

text \<open>What a request meets outside the ROI code: whether \<open>storage.SmallDataStore\<close> gives a
  store, whether that store can batch, and whether the commit made after \<open>n\<close> spans
  succeeds.\<close>

record env =
  store_ready :: bool
  batcher :: bool
  commit_ok :: "nat \<Rightarrow> bool"

text \<open>Modelled from the spec: \<open>dvid.MinIndexZYX\<close> and \<open>dvid.MaxIndexZYX\<close> are not among the
  sources. By the spec the engine scans all keys of its context and never looks outside
  \<open>[minIndexRLE, maxIndexRLE]\<close>: they are the indices with the least and the greatest
  encoding.\<close>

definition MinIndexZYX :: IndexZYX where
  "MinIndexZYX = \<lparr>ix = 0, iy = 0, iz = 0\<rparr>"

definition MaxIndexZYX :: IndexZYX where
  "MaxIndexZYX = \<lparr>ix = 0xFFFFFFFF, iy = 0xFFFFFFFF, iz = 0xFFFFFFFF\<rparr>"

definition minIndexRLE :: indexRLE where
  "minIndexRLE = \<lparr>start = MinIndexZYX, span = 0\<rparr>"

definition maxIndexRLE :: indexRLE where
  "maxIndexRLE = \<lparr>start = MaxIndexZYX, span = 0xFFFFFFFF\<rparr>"

section \<open>Reading and writing an ROI (roi.go, getROI and Put)\<close>

datatype roi_error =
  StoreUnavailable | ParseError | NoBatching | BatchPutError nat | LastBatchPutError

text \<open>The callback of \<open>getROI\<close>: a key that does not decode is logged and the zero index is
  used in its place (the callback does not return there).\<close>

definition decode_index :: "key \<Rightarrow> indexRLE" where
  "decode_index k =
     (case indexRLE_IndexFromBytes k of
        Inl _ \<Rightarrow> \<lparr>start = \<lparr>ix = 0, iy = 0, iz = 0\<rparr>, span = 0\<rparr>
      | Inr i \<Rightarrow> i)"

definition chunk_tuple :: "key \<Rightarrow> tuple" where
  "chunk_tuple k =
     (let index = decode_index k;
          z = iz (start index);
          y = iy (start index);
          x0 = ix (start index);
          x1 = x0 + span index - 1
      in (z, y, x0, x1))"

definition getROI :: "env \<Rightarrow> store \<Rightarrow> roi_error + tuple list" where
  "getROI e s =
     (if \<not> store_ready e then Inl StoreUnavailable
      else Inr (map chunk_tuple
                  (ProcessRange (indexRLE_Bytes minIndexRLE) (indexRLE_Bytes maxIndexRLE) s)))"

text \<open>The state a \<open>POST /roi\<close> works on: the instance's properties, the store, and what
  was saved. Modelled from the spec: \<open>datastore.SaveRepoByVersionID\<close> is not among the
  sources. By the spec it persists the properties with the instance metadata; \<open>saved\<close> holds
  the properties as they were at each call, one entry per call.\<close>

record roi_state =
  props :: Properties
  kv :: store
  saved :: "Properties list"

definition BATCH_SIZE :: nat where
  "BATCH_SIZE = 10000"

definition span_index :: "tuple \<Rightarrow> indexRLE" where
  "span_index t = (case t of (z, y, x0, x1) \<Rightarrow>
     \<lparr>start = \<lparr>ix = x0, iy = y, iz = z\<rparr>, span = x1 - x0 + 1\<rparr>)"

definition extend_z :: "Properties \<Rightarrow> tuple \<Rightarrow> Properties" where
  "extend_z d t = (case t of (z, y, x0, x1) \<Rightarrow>
     (let d1 = (if z <s MinZ d then d\<lparr>MinZ := z\<rparr> else d)
      in if MaxZ d1 <s z then d1\<lparr>MaxZ := z\<rparr> else d1))"

text \<open>The loop of \<open>Put\<close> over the spans, from index \<open>i\<close>: the properties, the open batch and
  the store are threaded through; an error ends the loop.\<close>

fun put_loop ::
  "env \<Rightarrow> nat \<Rightarrow> tuple list \<Rightarrow> Properties \<Rightarrow> (key \<times> byte list) list \<Rightarrow> store \<Rightarrow>
   Properties \<times> (key \<times> byte list) list \<times> store \<times> roi_error option" where
  "put_loop e i [] d batch s = (d, batch, s, None)"
| "put_loop e i (t # rest) d batch s =
     (let d' = extend_z d t;
          batch' = batch @ [(indexRLE_Bytes (span_index t), EmptyValue)]
      in if (i + 1) mod BATCH_SIZE = 0
         then (if commit_ok e (i + 1) then put_loop e (i + 1) rest d' [] (Commit batch' s)
               else (d', batch', s, Some (BatchPutError i)))
         else put_loop e (i + 1) rest d' batch' s)"

text \<open>\<open>Data.Put\<close>. The body is the result of \<open>json.Unmarshal\<close>: \<open>None\<close> when it fails. Nothing
  is deleted before the new keys are written. The deferred function runs on every return
  after it is set up, so the properties are saved also when a commit fails.\<close>

definition Put :: "env \<Rightarrow> roi_state \<Rightarrow> tuple list option \<Rightarrow> roi_state \<times> roi_error option" where
  "Put e st body =
     (if \<not> store_ready e then (st, Some StoreUnavailable)
      else case body of
        None \<Rightarrow> (st, Some ParseError)
      | Some spans \<Rightarrow>
          if \<not> batcher e then (st, Some NoBatching)
          else (case put_loop e 0 spans (props st) [] (kv st) of
                  (d', batch, s', err) \<Rightarrow>
                    (let r = (case err of
                                Some x \<Rightarrow> (s', Some x)
                              | None \<Rightarrow>
                                  if length spans mod BATCH_SIZE \<noteq> 0
                                  then (if commit_ok e (length spans) then (Commit batch s', None)
                                        else (s', Some LastBatchPutError))
                                  else (s', None))
                     in (\<lparr>props = d', kv = fst r, saved = saved st @ [d']\<rparr>, snd r))))"

section \<open>Creating the instance (roi.go, NewDataService)\<close>





section \<open>Point queries (roi.go, seekSpan and PointQuery)\<close>

text \<open>The loop of \<open>seekSpan\<close>, entered with \<open>curSpanI < numSpans\<close>; it ends because the index
  only grows and the loop leaves when it reaches \<open>numSpans\<close>.\<close>

function seek_loop :: "ChunkPoint3d \<Rightarrow> tuple list \<Rightarrow> nat \<Rightarrow> nat \<times> bool" where
  "seek_loop chunkPt spans curSpanI =
     (if tuple_less (spans ! curSpanI) chunkPt
      then (if Suc curSpanI \<ge> length spans then (Suc curSpanI, False)
            else seek_loop chunkPt spans (Suc curSpanI))
      else if tuple_includes (spans ! curSpanI) chunkPt then (curSpanI, True)
      else (curSpanI, False))"
  by pat_completeness auto
termination
  by (relation "measure (\<lambda>(c, spans, i). length spans - i)") auto

definition seekSpan ::
  "Properties \<Rightarrow> Point3d \<Rightarrow> tuple list \<Rightarrow> nat \<Rightarrow> panic + (nat \<times> bool)" where
  "seekSpan d pt spans curSpanI =
     (if curSpanI \<ge> length spans then Inr (curSpanI, False)
      else case Chunk pt (BlockSize d) of
             Inl p \<Rightarrow> Inl p
           | Inr chunkPt \<Rightarrow> Inr (seek_loop chunkPt spans curSpanI))"

text \<open>The loop of \<open>PointQuery\<close> over the sorted points: \<open>inclusions[i]\<close> is the answer for the
  \<open>i\<close>-th point of the sorted list.\<close>

fun query_loop :: "Properties \<Rightarrow> Point3d list \<Rightarrow> tuple list \<Rightarrow> nat \<Rightarrow> panic + bool list" where
  "query_loop d [] spans curSpan = Inr []"
| "query_loop d (pt # pts) spans curSpan =
     (case seekSpan d pt spans curSpan of
        Inl p \<Rightarrow> Inl p
      | Inr (curSpan', included) \<Rightarrow>
          (case query_loop d pts spans curSpan' of
             Inl p \<Rightarrow> Inl p
           | Inr rest \<Rightarrow> Inr (included # rest)))"

datatype 'a outcome = Panicked panic | Failed roi_error | Returned 'a

definition PointQuery ::
  "env \<Rightarrow> Properties \<Rightarrow> store \<Rightarrow> Point3d list option \<Rightarrow> bool list outcome" where
  "PointQuery e d s body =
     (case body of
        None \<Rightarrow> Failed ParseError
      | Some pts \<Rightarrow>
          (case getROI e s of
             Inl err \<Rightarrow> Failed err
           | Inr spans \<Rightarrow>
               (case query_loop d (sort_ByZYX pts) spans 0 of
                  Inl p \<Rightarrow> Panicked p
                | Inr inclusions \<Rightarrow> Returned inclusions)))"

section \<open>Partitioning (roi.go, addSubvolumes and Partition)\<close>

record subvolumeT =
  MinCorner :: Point3d
  MaxCorner :: Point3d
  TotalBlocks :: i32
  ActiveBlocks :: i32

record subvolumesT =
  NumTotalBlocks :: i32
  NumActiveBlocks :: i32
  NumSubvolumes :: i32
  Subvolumes :: "subvolumeT list"

record layerT =
  activeBlocks :: "indexRLE list"
  minX :: i32
  maxX :: i32
  minY :: i32
  maxY :: i32
  minZ :: i32
  maxZ :: i32

definition newLayer :: "i32 \<Rightarrow> i32 \<Rightarrow> layerT" where
  "newLayer z0 z1 =
     \<lparr>activeBlocks = [], minX = MaxInt32, maxX = MinInt32,
      minY = MaxInt32, maxY = MinInt32, minZ = z0, maxZ = z1\<rparr>"

definition layer_extend :: "layerT \<Rightarrow> indexRLE \<Rightarrow> layerT" where
  "layer_extend l rle =
     (let l0 = l\<lparr>activeBlocks := activeBlocks l @ [rle]\<rparr>;
          y = iy (start rle);
          x0 = ix (start rle);
          x1 = x0 + span rle - 1;
          l1 = (if x0 <s minX l0 then l0\<lparr>minX := x0\<rparr> else l0);
          l2 = (if maxX l1 <s x1 then l1\<lparr>maxX := x1\<rparr> else l1);
          l3 = (if y <s minY l2 then l2\<lparr>minY := y\<rparr> else l2)
      in if maxY l3 <s y then l3\<lparr>maxY := y\<rparr> else l3)"

text \<open>\<open>getYRange\<close>: the loop over the blocks carries (minY, maxY, found).\<close>

definition getYRange :: "indexRLE list \<Rightarrow> i32 \<times> i32 \<times> bool" where
  "getYRange blocks =
     foldl (\<lambda>(lo, hi, found) rle.
              (if iy (start rle) <s lo then iy (start rle) else lo,
               if hi <s iy (start rle) then iy (start rle) else hi,
               True))
           (MaxInt32, MinInt32, False) blocks"

text \<open>\<open>getXRange\<close>: the loop carries (minX, maxX, actives).\<close>

definition getXRange :: "indexRLE list \<Rightarrow> i32 \<Rightarrow> i32 \<Rightarrow> i32 \<times> i32 \<times> indexRLE list" where
  "getXRange blocks loY hiY =
     foldl (\<lambda>(lo, hi, actives) rle.
              if loY \<le>s iy (start rle) \<and> iy (start rle) \<le>s hiY
              then (let lo' = (if ix (start rle) <s lo then ix (start rle) else lo);
                        x1 = ix (start rle) + span rle - 1
                    in (lo', if hi <s x1 then x1 else hi, actives @ [rle]))
              else (lo, hi, actives))
           (MaxInt32, MinInt32, []) blocks"

text \<open>Modelled from the spec: \<open>dvid.MaxInt32\<close> and \<open>dvid.MinInt32\<close> are not among the sources.
  By the spec's count of active blocks, \<open>min(Xe, x1) - max(Xb, x0) + 1\<close>, they are the
  greater and the lesser of two \<open>int32\<close>.\<close>

definition MaxInt32_of :: "i32 \<Rightarrow> i32 \<Rightarrow> i32" where
  "MaxInt32_of a b = (if b <s a then a else b)"

definition MinInt32_of :: "i32 \<Rightarrow> i32 \<Rightarrow> i32" where
  "MinInt32_of a b = (if a <s b then a else b)"

definition findActives :: "indexRLE list \<Rightarrow> i32 \<Rightarrow> i32 \<Rightarrow> i32" where
  "findActives blocks loX hiX =
     foldl (\<lambda>numActive rle.
              (let spanBeg = ix (start rle)
               in if hiX <s spanBeg then numActive
                  else (let spanEnd = spanBeg + span rle - 1
                        in if spanEnd <s loX then numActive
                           else (let x0 = MaxInt32_of loX spanBeg;
                                     x1 = MinInt32_of hiX spanEnd
                                 in numActive + (x1 - x0 + 1)))))
           0 blocks"

fun totalBlocks :: "ChunkPoint3d \<Rightarrow> ChunkPoint3d \<Rightarrow> i32" where
  "totalBlocks (a0, a1, a2) (b0, b1, b2) = (b0 - a0 + 1) * (b1 - a1 + 1) * (b2 - a2 + 1)"

text \<open>The body of the inner loop of \<open>addSubvolumes\<close> for the column \<open>[begX, endX]\<close> of the row
  \<open>[begY, endY]\<close>: merge into the last subvolume, or append a new one; then the totals. The
  merge indexes \<open>Subvolumes[len - 1]\<close>, which panics when there is no subvolume yet.\<close>

definition add_column ::
  "Properties \<Rightarrow> layerT \<Rightarrow> i32 \<Rightarrow> indexRLE list \<Rightarrow> i32 \<Rightarrow> i32 \<Rightarrow> i32 \<Rightarrow> i32 \<Rightarrow>
   subvolumesT \<Rightarrow> panic + subvolumesT" where
  "add_column d layer mergeThreshold actives begX endX begY endY subvolumes =
     (let minCorner = (begX, begY, minZ layer);
          maxCorner = (endX, endY, maxZ layer);
          numTotal = totalBlocks minCorner maxCorner;
          numActive = findActives actives begX endX;
          r = (if numActive <s mergeThreshold
               then (if Subvolumes subvolumes = [] then Inl IndexOutOfRange
                     else (let lastI = length (Subvolumes subvolumes) - 1;
                               subvolume = Subvolumes subvolumes ! lastI;
                               subvolume' = subvolume
                                 \<lparr>MaxCorner := MinPoint maxCorner (BlockSize d),
                                  TotalBlocks := TotalBlocks subvolume + numTotal,
                                  ActiveBlocks := ActiveBlocks subvolume + numActive\<rparr>
                           in Inr (subvolumes
                                 \<lparr>Subvolumes := (Subvolumes subvolumes)[lastI := subvolume']\<rparr>)))
               else Inr (subvolumes
                      \<lparr>Subvolumes := Subvolumes subvolumes @
                         [\<lparr>MinCorner = MinPoint minCorner (BlockSize d),
                           MaxCorner = MaxPoint maxCorner (BlockSize d),
                           TotalBlocks = numTotal,
                           ActiveBlocks = numActive\<rparr>]\<rparr>))
      in case r of
           Inl p \<Rightarrow> Inl p
         | Inr sv \<Rightarrow> Inr (sv\<lparr>NumActiveBlocks := NumActiveBlocks sv + numActive,
                              NumTotalBlocks := NumTotalBlocks sv + numTotal\<rparr>))"

text \<open>The two loops of \<open>addSubvolumes\<close>. Neither is bounded: with 32-bit wrap-around
  \<open>begX > maxX\<close> may never hold, so a run that does not return is the value \<open>None\<close>.\<close>

partial_function (option) x_loop ::
  "Properties \<Rightarrow> layerT \<Rightarrow> i32 \<Rightarrow> i32 \<Rightarrow> indexRLE list \<Rightarrow> i32 \<Rightarrow> i32 \<Rightarrow> i32 \<Rightarrow> i32 \<Rightarrow> i32 \<Rightarrow>
   subvolumesT \<Rightarrow> (panic + subvolumesT) option" where
  "x_loop d layer batchsize mergeThreshold actives begY endY hiX begX xleft subvolumes =
     (if hiX <s begX then Some (Inr subvolumes)
      else (let endX = (if 0 <s xleft then begX + batchsize - 1 + 1 else begX + batchsize - 1);
                xleft' = (if 0 <s xleft then xleft - 1 else xleft)
            in case add_column d layer mergeThreshold actives begX endX begY endY subvolumes of
                 Inl p \<Rightarrow> Some (Inl p)
               | Inr sv \<Rightarrow>
                   x_loop d layer batchsize mergeThreshold actives begY endY hiX
                     (endX + 1) xleft' sv))"

partial_function (option) y_loop ::
  "Properties \<Rightarrow> layerT \<Rightarrow> i32 \<Rightarrow> i32 \<Rightarrow> i32 \<Rightarrow> i32 \<Rightarrow> i32 \<Rightarrow>
   subvolumesT \<Rightarrow> (panic + subvolumesT) option" where
  "y_loop d layer batchsize mergeThreshold hiY begY yleft subvolumes =
     (if hiY <s begY then Some (Inr subvolumes)
      else (let endY = (if 0 <s yleft then begY + batchsize - 1 + 1 else begY + batchsize - 1);
                yleft' = (if 0 <s yleft then yleft - 1 else yleft)
            in case getXRange (activeBlocks layer) begY endY of
                 (loX, hiX, actives) \<Rightarrow>
                   if actives \<noteq> []
                   then Option.bind
                          (x_loop d layer batchsize mergeThreshold actives begY endY hiX loX
                             (go_rem (hiX - loX + 1) batchsize) subvolumes)
                          (\<lambda>r. case r of
                                  Inl p \<Rightarrow> Some (Inl p)
                                | Inr sv \<Rightarrow>
                                    y_loop d layer batchsize mergeThreshold hiY (endY + 1)
                                      yleft' sv)
                   else y_loop d layer batchsize mergeThreshold hiY (endY + 1) yleft'
                          subvolumes))"

declare x_loop.simps [code]

declare y_loop.simps [code]

text \<open>\<open>addSubvolumes\<close>: \<open>dy % batchsize\<close> panics when \<open>batchsize\<close> is zero.\<close>

definition addSubvolumes ::
  "Properties \<Rightarrow> layerT \<Rightarrow> subvolumesT \<Rightarrow> i32 \<Rightarrow> (panic + subvolumesT) option" where
  "addSubvolumes d layer subvolumes batchsize =
     (let mergeThreshold = go_div (batchsize * batchsize * batchsize) 10
      in case getYRange (activeBlocks layer) of
           (loY, hiY, found) \<Rightarrow>
             if \<not> found then Some (Inr subvolumes)
             else if batchsize = 0 then Some (Inl DivideByZero)
             else y_loop d layer batchsize mergeThreshold hiY loY
                    (go_rem (hiY - loY + 1) batchsize) subvolumes)"

text \<open>The variables the callback of \<open>Partition\<close> captures.\<close>

record partition_state =
  layerBegZ :: i32
  layerEndZ :: i32
  zleft :: i32
  layer :: layerT
  subvolumes :: subvolumesT

text \<open>The callback of \<open>Partition\<close> for one key: when the key's Z is past the layer's end, the
  layer is processed and the next one begins at \<open>layerEndZ + 1\<close>, whatever the key's Z is.\<close>

definition partition_chunk ::
  "Properties \<Rightarrow> i32 \<Rightarrow> partition_state \<Rightarrow> key \<Rightarrow> (panic + partition_state) option" where
  "partition_chunk d batchsize st k =
     (let index = decode_index k;
          z = iz (start index)
      in if layerEndZ st <s z
         then Option.bind (addSubvolumes d (layer st) (subvolumes st) batchsize)
                (\<lambda>r. case r of
                        Inl p \<Rightarrow> Some (Inl p)
                      | Inr sv \<Rightarrow>
                          (let begZ = layerEndZ st + 1;
                               endZ = (if 0 <s zleft st then layerEndZ st + batchsize + 1
                                       else layerEndZ st + batchsize);
                               zleft' = (if 0 <s zleft st then zleft st - 1 else zleft st)
                           in Some (Inr \<lparr>layerBegZ = begZ, layerEndZ = endZ, zleft = zleft',
                                          layer = layer_extend (newLayer begZ endZ) index,
                                          subvolumes = sv\<rparr>)))
         else Some (Inr (st\<lparr>layer := layer_extend (layer st) index\<rparr>)))"

fun partition_chunks ::
  "Properties \<Rightarrow> i32 \<Rightarrow> key list \<Rightarrow> partition_state \<Rightarrow> (panic + partition_state) option" where
  "partition_chunks d batchsize [] st = Some (Inr st)"
| "partition_chunks d batchsize (k # ks) st =
     (case partition_chunk d batchsize st k of
        None \<Rightarrow> None
      | Some (Inl p) \<Rightarrow> Some (Inl p)
      | Some (Inr st') \<Rightarrow> partition_chunks d batchsize ks st')"

text \<open>\<open>Data.Partition\<close>: \<open>dz % batchsize\<close> comes first and panics when \<open>batchsize\<close> is zero. The
  result is the structure that is then encoded as JSON; \<open>None\<close> means it does not return.\<close>

definition Partition ::
  "env \<Rightarrow> Properties \<Rightarrow> store \<Rightarrow> i32 \<Rightarrow> subvolumesT outcome option" where
  "Partition e d s batchsize =
     (if batchsize = 0 then Some (Panicked DivideByZero)
      else (let dz = MaxZ d - MinZ d + 1;
                st0 = \<lparr>layerBegZ = MinZ d, layerEndZ = MinZ d + batchsize - 1,
                       zleft = go_rem dz batchsize,
                       layer = newLayer (MinZ d) (MinZ d + batchsize - 1),
                       subvolumes = \<lparr>NumTotalBlocks = 0, NumActiveBlocks = 0,
                                     NumSubvolumes = 0, Subvolumes = []\<rparr>\<rparr>
            in if \<not> store_ready e then Some (Failed StoreUnavailable)
               else case partition_chunks d batchsize
                           (ProcessRange (indexRLE_Bytes minIndexRLE)
                              (indexRLE_Bytes maxIndexRLE) s) st0 of
                      None \<Rightarrow> None
                    | Some (Inl p) \<Rightarrow> Some (Panicked p)
                    | Some (Inr st) \<Rightarrow>
                        (case (if activeBlocks (layer st) \<noteq> []
                               then addSubvolumes d (layer st) (subvolumes st) batchsize
                               else Some (Inr (subvolumes st))) of
                           None \<Rightarrow> None
                         | Some (Inl p) \<Rightarrow> Some (Panicked p)
                         | Some (Inr sv) \<Rightarrow>
                             Some (Returned
                               (sv\<lparr>NumSubvolumes := of_nat (length (Subvolumes sv))\<rparr>)))))"

section \<open>HTTP requests and replies\<close>

text \<open>Of a request the handlers read the method, the URL path and the URL query
  (\<open>url.Values\<close>: each key with its list of values).\<close>

record request =
  Method :: string
  Path :: string
  Query :: "(string \<times> string list) list"

record response =
  status :: nat
  content :: string

text \<open>\<open>strings.ToLower\<close>, on the ASCII letters.\<close>

definition lower_char :: "char \<Rightarrow> char" where
  "lower_char c =
     (case map_of (zip ''ABCDEFGHIJKLMNOPQRSTUVWXYZ'' ''abcdefghijklmnopqrstuvwxyz'') c of
        Some l \<Rightarrow> l
      | None \<Rightarrow> c)"

definition ToLower :: "string \<Rightarrow> string" where
  "ToLower s = map lower_char s"

definition StatusBadRequest :: nat where
  "StatusBadRequest = 400"

text \<open>\<open>server.BadRequest\<close> called with a message and no further arguments: \<open>http.Error\<close>
  sends the text and a newline with status 400.\<close>

definition BadRequest :: "request \<Rightarrow> string \<Rightarrow> response" where
  "BadRequest r message =
     \<lparr>status = StatusBadRequest,
      content = ''ERROR: '' @ message @ '' ('' @ Path r @ '').'' @ [CHR 0x0A]\<rparr>"

section \<open>The read-only mode (server, repoSelector and initRoutes)\<close>





















section \<open>The ROI request handler (roi.go, ServeHTTP)\<close>

text \<open>\<open>strconv.Atoi\<close>: an optional sign and at least one decimal digit, and a value that fits
  Go's 64-bit \<open>int\<close>; \<open>None\<close> is the error.\<close>

definition digit_value :: "char \<Rightarrow> nat option" where
  "digit_value c = map_of (zip ''0123456789'' [0, 1, 2, 3, 4, 5, 6, 7, 8, 9]) c"

fun parse_digits :: "nat \<Rightarrow> string \<Rightarrow> nat option" where
  "parse_digits acc [] = Some acc"
| "parse_digits acc (c # cs) =
     (case digit_value c of
        None \<Rightarrow> None
      | Some v \<Rightarrow> parse_digits (10 * acc + v) cs)"

definition parse_unsigned :: "string \<Rightarrow> nat option" where
  "parse_unsigned s = (if s = [] then None else parse_digits 0 s)"

definition Atoi :: "string \<Rightarrow> int option" where
  "Atoi s =
     (case s of
        [] \<Rightarrow> None
      | c # cs \<Rightarrow>
          (let v = (if c = CHR ''-'' then map_option (\<lambda>n. - int n) (parse_unsigned cs)
                    else if c = CHR ''+'' then map_option int (parse_unsigned cs)
                    else map_option int (parse_unsigned s))
           in case v of
                None \<Rightarrow> None
              | Some n \<Rightarrow> if - (2 ^ 63) \<le> n \<and> n < 2 ^ 63 then Some n else None))"

text \<open>\<open>url.Values.Get\<close>: the first value of the key, or the empty string.\<close>

definition Values_Get :: "(string \<times> string list) list \<Rightarrow> string \<Rightarrow> string" where
  "Values_Get q k = (case map_of q k of Some (v # _) \<Rightarrow> v | _ \<Rightarrow> [])"

text \<open>\<open>strings.Split(url, "/")\<close>.\<close>

fun Split :: "string \<Rightarrow> string list" where
  "Split [] = [[]]"
| "Split (c # cs) =
     (if c = CHR ''/'' then [] # Split cs
      else (case Split cs of p # ps \<Rightarrow> (c # p) # ps | [] \<Rightarrow> [[c]]))"

definition WebAPIPath :: string where
  "WebAPIPath = ''/api/''"

text \<open>The arguments of the request: the path after \<open>WebAPIPath\<close>, split at the slashes,
  without an empty last part. Slicing a path shorter than \<open>WebAPIPath\<close> panics.\<close>

definition url_parts :: "string \<Rightarrow> panic + string list" where
  "url_parts p =
     (if length p < length WebAPIPath then Inl SliceOutOfRange
      else (let parts = Split (drop (length WebAPIPath) p)
            in Inr (if last parts = [] then butlast parts else parts)))"

text \<open>What the handler does with a request: it panics, it replies itself, or it calls one
  of the operations and replies with its result (a 400 with the error's text when the
  operation fails). \<open>OpNone\<close> is a command whose inner switch has no case for the method.\<close>

datatype operation =
  OpHelp | OpInfo | OpGet | OpPut | OpPointQuery | OpPartition i32 | OpNone

datatype handled = Panics panic | Replies response | Calls operation

text \<open>\<open>Data.ServeHTTP\<close>. \<open>ctx_err\<close> is the formatted message when \<open>datastore.FromContext\<close>
  fails. \<open>atoi_error\<close> gives the text of the error that \<open>strconv.Atoi\<close> returns for a string
  it rejects (\<open>err.Error()\<close>); it is appended to the batchsize message.\<close>

definition ServeHTTP :: "string option \<Rightarrow> (string \<Rightarrow> string) \<Rightarrow> request \<Rightarrow> handled" where
  "ServeHTTP ctx_err atoi_error r =
     (case ctx_err of
        Some m \<Rightarrow> Replies (BadRequest r m)
      | None \<Rightarrow>
          (case url_parts (Path r) of
             Inl p \<Rightarrow> Panics p
           | Inr parts \<Rightarrow>
               if length parts < 4 then Replies (BadRequest r ''incomplete API specification'')
               else if parts ! 3 = ''help'' then Calls OpHelp
               else if parts ! 3 = ''info'' then Calls OpInfo
               else (let command = parts ! 3;
                         method = ToLower (Method r)
                     in if command = ''roi''
                        then (if method = ''get'' then Calls OpGet
                              else if method = ''post'' then Calls OpPut
                              else Calls OpNone)
                        else if command = ''ptquery''
                        then (if method = ''get''
                              then Replies (BadRequest r
                                     ''ptquery requires POST with list of points'')
                              else if method = ''post'' then Calls OpPointQuery
                              else Calls OpNone)
                        else if command = ''partition''
                        then (if method \<noteq> ''get''
                              then Replies (BadRequest r ''partition only supports GET request'')
                              else (case Atoi (Values_Get (Query r) ''batchsize'') of
                                      None \<Rightarrow>
                                        Replies (BadRequest r
                                          (''Error reading batchsize query string: ''
                                           @ atoi_error (Values_Get (Query r) ''batchsize'')))
                                    | Some batchsize \<Rightarrow>
                                        Calls (OpPartition (word_of_int batchsize))))
                        else Replies (BadRequest r
                               ''Can only handle GET or POST HTTP verbs''))))"

text \<open>A decimal integer, as the spec's words have it: an optional sign and then one or more
  decimal digits.\<close>

definition is_digit :: "char \<Rightarrow> bool" where
  "is_digit c = (c \<in> set ''0123456789'')"

definition is_decimal_integer :: "string \<Rightarrow> bool" where
  "is_decimal_integer s =
     (case s of
        [] \<Rightarrow> False
      | c # cs \<Rightarrow>
          if c = CHR ''-'' \<or> c = CHR ''+'' then cs \<noteq> [] \<and> list_all is_digit cs
          else list_all is_digit s)"

section \<open>Sequences of POST /roi requests\<close>








section \<open>Canonical form, in the spec's words\<close>

text \<open>The key under which \<open>Put\<close> stores a span.\<close>

definition span_key :: "tuple \<Rightarrow> key" where
  "span_key t = indexRLE_Bytes (span_index t)"

text \<open>The coordinates of a span as signed numbers, with and without its last x, ordered
  lexicographically; and the spans whose z, y and x0 are not negative and whose x-range is
  not empty.\<close>

definition zyx_coords :: "tuple \<Rightarrow> int \<times> int \<times> int \<times> int" where
  "zyx_coords t = (case t of (z, y, x0, x1) \<Rightarrow> (sint z, sint y, sint x0, sint x1))"

definition non_negative_span :: "tuple \<Rightarrow> bool" where
  "non_negative_span t = (case t of (z, y, x0, x1) \<Rightarrow> 0 \<le>s z \<and> 0 \<le>s y \<and> 0 \<le>s x0 \<and> x0 \<le>s x1)"

definition zyx0_coords :: "tuple \<Rightarrow> int \<times> int \<times> int" where
  "zyx0_coords t = (case t of (z, y, x0, x1) \<Rightarrow> (sint z, sint y, sint x0))"

text \<open>Two spans touch or overlap: they lie on the same (z, y) and their x-ranges meet or
  are adjacent.\<close>

definition touch_or_overlap :: "tuple \<Rightarrow> tuple \<Rightarrow> bool" where
  "touch_or_overlap a b =
     (case a of (z, y, x0, x1) \<Rightarrow> case b of (z', y', x0', x1') \<Rightarrow>
        z = z' \<and> y = y' \<and> sint x0' \<le> sint x1 + 1 \<and> sint x0 \<le> sint x1' + 1)"

text \<open>The canonical form of the spec: strictly ascending in (z, y, x0), and no two spans
  touch or overlap.\<close>

definition RLE_canonical :: "tuple list \<Rightarrow> bool" where
  "RLE_canonical spans =
     sorted_wrt (\<lambda>a b. zyx0_coords a < zyx0_coords b \<and> \<not> touch_or_overlap a b) spans"

section \<open>Concrete inputs\<close>

text \<open>A store that is set up, batches, and commits without error.\<close>

definition env_ok :: env where
  "env_ok = \<lparr>store_ready = True, batcher = True, commit_ok = (\<lambda>_. True)\<rparr>"

text \<open>The properties of a freshly created instance with the default block size; the
  instance with an empty store; and the same after one \<open>POST /roi\<close> of the given spans.\<close>

definition default_props :: Properties where
  "default_props = \<lparr>BlockSize = (32, 32, 32), MinZ = MaxInt32, MaxZ = MinInt32\<rparr>"

definition fresh_roi :: roi_state where
  "fresh_roi = \<lparr>props = default_props, kv = [], saved = []\<rparr>"

definition posted :: "tuple list \<Rightarrow> roi_state" where
  "posted spans = fst (Put env_ok fresh_roi (Some spans))"









definition sample_atoi_error :: "string \<Rightarrow> string" where
  "sample_atoi_error v =
     ''strconv.ParseInt: parsing '' @ [CHR 0x22] @ v @ [CHR 0x22] @ '': invalid syntax''"

definition partition_request :: "(string \<times> string list) list \<Rightarrow> request" where
  "partition_request q = \<lparr>Method = ''GET'', Path = ''/api/node/3f8c/medulla/partition'', Query = q\<rparr>"

section \<open>Properties of the index encoding\<close>

lemma Uint32_be32: "Uint32 (be32 w @ rest) = w"
proof (rule bit_word_eqI)
  fix n assume "n < LENGTH(32)"
  then consider "n < 8" | "8 \<le> n" "n < 16" | "16 \<le> n" "n < 24" | "24 \<le> n" "n < 32"
    by fastforce
  then show "bit (Uint32 (be32 w @ rest)) n = bit w n"
    by cases (auto simp add: be32_def bit_simps)
qed

lemma length_be32: "length (be32 w) = 4"
  by (simp add: be32_def)

lemma length_IndexZYX_Bytes: "length (IndexZYX_Bytes i) = 12"
  by (simp add: IndexZYX_Bytes_def length_be32)

lemma length_indexRLE_Bytes: "length (indexRLE_Bytes i) = 16"
  by (simp add: indexRLE_Bytes_def length_IndexZYX_Bytes length_be32)

lemma IndexZYX_roundtrip: "IndexZYX_IndexFromBytes (IndexZYX_Bytes i) = Some i"
proof -
  have "Uint32 (be32 (iz i) @ be32 (iy i) @ be32 (ix i)) = iz i"
    by (rule Uint32_be32)
  moreover have "Uint32 (drop 4 (be32 (iz i) @ be32 (iy i) @ be32 (ix i))) = iy i"
    by (simp add: length_be32 Uint32_be32)
  moreover have "Uint32 (drop 8 (be32 (iz i) @ be32 (iy i) @ be32 (ix i))) = ix i"
    using Uint32_be32 [of "ix i" "[]"] by (simp add: length_be32)
  ultimately show ?thesis
    by (simp add: IndexZYX_IndexFromBytes_def IndexZYX_Bytes_def length_be32)
qed

lemma indexRLE_roundtrip: "indexRLE_IndexFromBytes (indexRLE_Bytes i) = Inr i"
proof -
  have "take 12 (indexRLE_Bytes i) = IndexZYX_Bytes (start i)"
    by (simp add: indexRLE_Bytes_def length_IndexZYX_Bytes)
  moreover have "Uint32 (drop 12 (indexRLE_Bytes i)) = span i"
    using Uint32_be32 [of "span i" "[]"]
    by (simp add: indexRLE_Bytes_def length_IndexZYX_Bytes)
  ultimately show ?thesis
    by (simp add: indexRLE_IndexFromBytes_def length_indexRLE_Bytes IndexZYX_roundtrip)
qed

lemma indexRLE_decode_fails_iff: "isl (indexRLE_IndexFromBytes b) \<longleftrightarrow> length b \<noteq> 16"
  by (simp add: indexRLE_IndexFromBytes_def IndexZYX_IndexFromBytes_def)

section \<open>What an accepted POST writes and what GET reads back\<close>

lemma put_loop_store:
  "put_loop e i spans d batch s = (d', batch', s', None) \<Longrightarrow>
   length batch = i mod BATCH_SIZE \<Longrightarrow>
   s' @ batch' = s @ batch @ map (\<lambda>t. (span_key t, EmptyValue)) spans
   \<and> length batch' = (i + length spans) mod BATCH_SIZE"
proof (induction spans arbitrary: i d batch s)
  case Nil
  then show ?case by simp
next
  case (Cons t spans)
  show ?case
  proof (cases "(i + 1) mod BATCH_SIZE = 0")
    case True
    with Cons.prems(1) have ok: "commit_ok e (i + 1)"
      and l: "put_loop e (i + 1) spans (extend_z d t) []
                (Commit (batch @ [(span_key t, EmptyValue)]) s) = (d', batch', s', None)"
      by (auto simp add: Let_def span_key_def split: if_splits)
    from True have "length ([] :: (key \<times> byte list) list) = (i + 1) mod BATCH_SIZE"
      by simp
    from Cons.IH [OF l this] show ?thesis
      by (simp add: Commit_def)
  next
    case False
    with Cons.prems(1) have l: "put_loop e (i + 1) spans (extend_z d t)
                (batch @ [(span_key t, EmptyValue)]) s = (d', batch', s', None)"
      by (auto simp add: Let_def span_key_def split: if_splits)
    from False Cons.prems(2) have "length (batch @ [(span_key t, EmptyValue)]) = (i + 1) mod BATCH_SIZE"
      by (auto simp add: mod_Suc split: if_splits)
    from Cons.IH [OF l this] show ?thesis
      by simp
  qed
qed

lemma Put_accepted_store:
  assumes "Put e st (Some spans) = (st', None)"
  shows "kv st' = kv st @ map (\<lambda>t. (span_key t, EmptyValue)) spans"
proof -
  from assms have r: "store_ready e" "batcher e"
    by (auto simp add: Put_def split: if_splits)
  obtain d' batch s' err where l: "put_loop e 0 spans (props st) [] (kv st) = (d', batch, s', err)"
    by (metis prod_cases4)
  with assms r have none: "err = None"
    by (auto simp add: Put_def Let_def split: if_splits option.splits)
  from put_loop_store [OF l [unfolded none]]
  have eq: "s' @ batch = kv st @ map (\<lambda>t. (span_key t, EmptyValue)) spans"
    and len: "length batch = length spans mod BATCH_SIZE"
    by simp_all
  show ?thesis
  proof (cases "length spans mod BATCH_SIZE = 0")
    case True
    with len have "batch = []" by simp
    with assms r l none True eq show ?thesis
      by (auto simp add: Put_def Let_def)
  next
    case False
    with assms r l none have "commit_ok e (length spans)" and "kv st' = Commit batch s'"
      by (auto simp add: Put_def Let_def split: if_splits)
    with eq show ?thesis by (simp add: Commit_def)
  qed
qed


lemma be32_0: "be32 0 = [0, 0, 0, 0]"
  by (simp add: be32_def)

lemma be32_max: "be32 0xFFFFFFFF = [0xFF, 0xFF, 0xFF, 0xFF]"
  by (simp add: be32_def)

lemma minIndexRLE_bytes: "indexRLE_Bytes minIndexRLE = replicate 16 0"
  by (simp add: indexRLE_Bytes_def minIndexRLE_def MinIndexZYX_def IndexZYX_Bytes_def be32_0
        numeral_eq_Suc)

lemma maxIndexRLE_bytes: "indexRLE_Bytes maxIndexRLE = replicate 16 0xFF"
  by (simp add: indexRLE_Bytes_def maxIndexRLE_def MaxIndexZYX_def IndexZYX_Bytes_def be32_max
        numeral_eq_Suc)

lemma replicate_0_le: "length (k :: key) = n \<Longrightarrow> replicate n 0 \<le> k"
proof (induction n arbitrary: k)
  case 0
  then show ?case by simp
next
  case (Suc n)
  then obtain b k' where "k = b # k'" "length k' = n"
    by (cases k) auto
  with Suc.IH [of k'] show ?case
    by (cases "b = 0") (auto simp add: word_gt_0)
qed

lemma le_replicate_max: "length (k :: key) = n \<Longrightarrow> k \<le> replicate n 0xFF"
proof (induction n arbitrary: k)
  case 0
  then show ?case by simp
next
  case (Suc n)
  then obtain b k' where k: "k = b # k'" "length k' = n"
    by (cases k) auto
  have m: "(0xFF :: byte) = - 1"
    by simp
  have "b \<le> 0xFF"
    unfolding m by (rule word_order.extremum)
  with k Suc.IH [of k'] show ?case
    by auto
qed

lemma key16_in_range:
  "length k = 16 \<Longrightarrow> indexRLE_Bytes minIndexRLE \<le> k \<and> k \<le> indexRLE_Bytes maxIndexRLE"
  by (simp add: minIndexRLE_bytes maxIndexRLE_bytes replicate_0_le le_replicate_max)

lemma chunk_tuple_span_key: "chunk_tuple (span_key t) = t"
  by (cases t) (simp add: chunk_tuple_def span_key_def decode_index_def indexRLE_roundtrip
        span_index_def Let_def)

section \<open>The byte order of the keys and the order of the coordinates\<close>

lemma nat_less_div_mod:
  fixes n m k :: nat
  assumes "0 < k"
  shows "n < m \<longleftrightarrow> n div k < m div k \<or> (n div k = m div k \<and> n mod k < m mod k)"
proof -
  consider "n div k < m div k" | "m div k < n div k" | "n div k = m div k"
    by linarith
  then show ?thesis
  proof cases
    case 1
    then have "\<not> m \<le> n" using div_le_mono [of m n k] by linarith
    with 1 show ?thesis by simp
  next
    case 2
    then have "\<not> n \<le> m" using div_le_mono [of n m k] by linarith
    with 2 show ?thesis by simp
  next
    case 3
    define q where "q = k * (m div k)"
    have "n = q + n mod k"
      unfolding q_def using 3 by (metis mult_div_mod_eq)
    moreover have "m = q + m mod k"
      unfolding q_def by simp
    ultimately have "n < m \<longleftrightarrow> n mod k < m mod k"
      by linarith
    with 3 show ?thesis by simp
  qed
qed

lemma nat_eq_div_mod:
  fixes n m k :: nat
  shows "n = m \<longleftrightarrow> n div k = m div k \<and> n mod k = m mod k"
  by (metis div_mult_mod_eq)

lemma word32_less_step:
  fixes a b :: "32 word"
  shows "a < b \<longleftrightarrow> drop_bit 8 a < drop_bit 8 b
           \<or> (drop_bit 8 a = drop_bit 8 b \<and> (ucast a :: byte) < ucast b)"
proof -
  have d: "unat (drop_bit 8 w) = unat w div 256" for w :: "32 word"
    by (simp add: drop_bit_eq_div unat_div)
  have u: "unat (ucast w :: byte) = unat w mod 256" for w :: "32 word"
    by (simp add: unsigned_ucast_eq take_bit_eq_mod)
  show ?thesis
    using nat_less_div_mod [of 256 "unat a" "unat b"]
    by (simp add: word_less_nat_alt word_unat_eq_iff d u)
qed

lemma word32_eq_step:
  fixes a b :: "32 word"
  shows "a = b \<longleftrightarrow> drop_bit 8 a = drop_bit 8 b \<and> (ucast a :: byte) = ucast b"
proof -
  have d: "unat (drop_bit 8 w) = unat w div 256" for w :: "32 word"
    by (simp add: drop_bit_eq_div unat_div)
  have u: "unat (ucast w :: byte) = unat w mod 256" for w :: "32 word"
    by (simp add: unsigned_ucast_eq take_bit_eq_mod)
  show ?thesis
    using nat_eq_div_mod [of "unat a" "unat b" 256]
    by (simp add: word_unat_eq_iff d u)
qed

lemma be32_less: "be32 a < be32 b \<longleftrightarrow> a < b"
proof -
  have z: "drop_bit 8 (drop_bit 24 w) = 0" for w :: "32 word"
    by simp
  note l1 = word32_less_step [of a b]
  note l2 = word32_less_step [of "drop_bit 8 a" "drop_bit 8 b", simplified]
  note l3 = word32_less_step [of "drop_bit 16 a" "drop_bit 16 b", simplified]
  note l4 = word32_less_step [of "drop_bit 24 a" "drop_bit 24 b", simplified z, simplified]
  note e2 = word32_eq_step [of "drop_bit 8 a" "drop_bit 8 b", simplified]
  note e3 = word32_eq_step [of "drop_bit 16 a" "drop_bit 16 b", simplified]
  note e4 = word32_eq_step [of "drop_bit 24 a" "drop_bit 24 b", simplified z, simplified]
  show ?thesis
    unfolding be32_def using l1 l2 l3 l4 e2 e3 e4 by auto
qed

lemma be32_inj: "be32 a = be32 b \<longleftrightarrow> a = b"
  by (metis Uint32_be32)

lemma append_less_same_length:
  fixes p q r r' :: "'a::linorder list"
  assumes "length p = length q"
  shows "p @ r < q @ r' \<longleftrightarrow> p < q \<or> (p = q \<and> r < r')"
  using assms by (induction p q rule: list_induct2) auto

lemma nonneg_sint_uint:
  fixes w :: i32
  assumes "0 \<le>s w"
  shows "sint w = uint w"
proof -
  have "0 \<le> sint w"
    using assms by (simp add: word_sle_eq)
  moreover have "sint w < 2 ^ 32"
    using sint_lt [of w] by simp
  ultimately have "take_bit 32 (sint w) = sint w"
    by (simp add: take_bit_int_eq_self)
  then show ?thesis
    by (simp add: uint_sint)
qed

lemma nonneg_less:
  fixes a b :: i32
  assumes "0 \<le>s a" and "0 \<le>s b"
  shows "a < b \<longleftrightarrow> sint a < sint b"
  using assms by (simp add: word_less_def nonneg_sint_uint)

lemma nonneg_span_uint:
  fixes x0 x1 :: i32
  assumes "0 \<le>s x0" and "x0 \<le>s x1"
  shows "uint (x1 - x0 + 1) = sint x1 - sint x0 + 1"
proof -
  have le: "sint x0 \<le> sint x1" and z: "0 \<le> sint x0"
    using assms by (simp_all add: word_sle_eq)
  then have "0 \<le>s x1"
    by (simp add: word_sle_eq)
  then have u1: "uint x1 = sint x1" and u0: "uint x0 = sint x0"
    using assms(1) by (simp_all add: nonneg_sint_uint)
  have b: "sint x1 < 2 ^ 31"
    using sint_lt [of x1] by simp
  have "uint (x1 - x0 + 1) = (uint x1 - uint x0 + 1) mod 2 ^ 32"
    by (simp add: uint_word_ariths mod_simps)
  also have "\<dots> = sint x1 - sint x0 + 1"
    using le z b by (simp add: u1 u0)
  finally show ?thesis .
qed

lemma span_key_bytes:
  "span_key (z, y, x0, x1) = be32 z @ be32 y @ be32 x0 @ be32 (x1 - x0 + 1)"
  by (simp add: span_key_def span_index_def indexRLE_Bytes_def IndexZYX_Bytes_def)

lemma span_key_less:
  "span_key (z, y, x0, x1) < span_key (z', y', x0', x1') \<longleftrightarrow>
     z < z' \<or> (z = z' \<and> (y < y' \<or> (y = y' \<and> (x0 < x0' \<or>
       (x0 = x0' \<and> x1 - x0 + 1 < x1' - x0' + 1)))))"
  by (simp add: span_key_bytes append_less_same_length length_be32 be32_less be32_inj)

lemma span_key_less_coords:
  assumes "non_negative_span t" and "non_negative_span t'"
  shows "span_key t < span_key t' \<longleftrightarrow> zyx_coords t < zyx_coords t'"
proof -
  obtain z y x0 x1 where t: "t = (z, y, x0, x1)" by (cases t)
  obtain z' y' x0' x1' where t': "t' = (z', y', x0', x1')" by (cases t')
  from assms t t' have n: "0 \<le>s z" "0 \<le>s y" "0 \<le>s x0" "x0 \<le>s x1"
    "0 \<le>s z'" "0 \<le>s y'" "0 \<le>s x0'" "x0' \<le>s x1'"
    by (simp_all add: non_negative_span_def)
  have s: "x1 - x0 + 1 < x1' - x0' + 1 \<longleftrightarrow> sint x1 - sint x0 < sint x1' - sint x0'"
    using n by (simp add: word_less_def nonneg_span_uint) linarith
  have e: "a = b \<longleftrightarrow> sint a = sint b" for a b :: i32
    by (auto intro: signed_word_eqI)
  show ?thesis
    unfolding t t' span_key_less zyx_coords_def
    using n s by (auto simp add: nonneg_less less_prod_def e)
qed

lemma ProcessRange_posted:
  "ProcessRange (indexRLE_Bytes minIndexRLE) (indexRLE_Bytes maxIndexRLE)
     (map (\<lambda>t. (span_key t, EmptyValue)) spans) = sort (remdups (map span_key spans))"
proof -
  have "filter (\<lambda>k. indexRLE_Bytes minIndexRLE \<le> k \<and> k \<le> indexRLE_Bytes maxIndexRLE)
          (map span_key spans) = map span_key spans"
    by (rule filter_True) (auto simp add: span_key_def key16_in_range length_indexRLE_Bytes)
  then show ?thesis
    by (simp add: ProcessRange_def comp_def)
qed

lemma zyx_less_imp_zyx0_le:
  "zyx_coords a < zyx_coords b \<Longrightarrow> zyx0_coords a \<le> zyx0_coords b"
  by (cases a, cases b)
    (auto simp add: zyx_coords_def zyx0_coords_def less_prod_def less_eq_prod_def)

section \<open>C1: point queries\<close>

text \<open>
  C1 (the code departs from the claim). The ROI holds the one span z = 0, y = 0, x in [0, 1]
  and the query is the voxel (32, 0, 0), whose block (1, 0, 0) lies in that span. The span
  counts as before the block, because \<open>tuple_less\<close> holds also when the span's last x equals
  the block's x, so it is skipped and the answer is false.
\<close>

theorem C1_last_block_of_span_missed:
  "PointQuery env_ok (props (posted [(0, 0, 0, 1)])) (kv (posted [(0, 0, 0, 1)]))
     (Some [(32, 0, 0)]) = Returned [False]
   \<and> getROI env_ok (kv (posted [(0, 0, 0, 1)])) = Inr [(0, 0, 0, 1)]
   \<and> Chunk (32, 0, 0) (BlockSize (props (posted [(0, 0, 0, 1)]))) = Inr (1, 0, 0)
   \<and> tuple_includes (0, 0, 0, 1) (1, 0, 0)"
  by code_simp

text \<open>The answers follow the sorted points, not the posted ones: of the voxels (0, 0, 32) and
  (0, 0, 0), in this order, only the second lies in the span, and the first answer is true.\<close>

lemma PointQuery_answers_in_sorted_order:
  "PointQuery env_ok (props (posted [(0, 0, 0, 1)])) (kv (posted [(0, 0, 0, 1)]))
     (Some [(0, 0, 32), (0, 0, 0)]) = Returned [True, False]"
  by code_simp

section \<open>C2: GET /roi after POST /roi\<close>

text \<open>
  C2 as stated fails: after \<open>POST /roi\<close> of the overlapping spans x in [0, 5] and x in
  [3, 8] on the same (z, y), \<open>GET /roi\<close> returns both, unmerged.
\<close>

theorem C2_overlapping_spans_not_merged:
  "getROI env_ok (kv (posted [(0, 0, 0, 5), (0, 0, 3, 8)])) = Inr [(0, 0, 0, 5), (0, 0, 3, 8)]
   \<and> \<not> RLE_canonical [(0, 0, 0, 5), (0, 0, 3, 8)]"
  by code_simp

text \<open>Two spans with the same (z, y, x0) are both kept, so the result is not strictly
  ascending in (z, y, x0) either.\<close>

lemma same_start_spans_both_kept:
  "getROI env_ok (kv (posted [(0, 0, 0, 8), (0, 0, 0, 5)])) = Inr [(0, 0, 0, 5), (0, 0, 0, 8)]
   \<and> zyx0_coords (0, 0, 0, 5) = zyx0_coords (0, 0, 0, 8)"
  by code_simp

text \<open>
  C2, amended. After an accepted \<open>POST /roi\<close> on an empty ROI, \<open>GET /roi\<close> returns exactly the
  posted tuples, each once and as posted (nothing is merged), in strictly ascending order
  of their stored keys. When no z, y, x0 is negative and every x0 is at most its x1, that
  order is strictly ascending in (z, y, x0, x1), hence ascending in (z, y, x0).
\<close>

theorem C2_get_after_post:
  assumes "kv st0 = []" and "Put e st0 (Some spans) = (st, None)" and "store_ready e'"
  shows "\<exists>out. getROI e' (kv st) = Inr out
           \<and> set out = set spans
           \<and> sorted_wrt (<) (map span_key out)
           \<and> (list_all non_negative_span spans \<longrightarrow>
                sorted_wrt (<) (map zyx_coords out) \<and> sorted (map zyx0_coords out))"
proof -
  define ks where "ks = sort (remdups (map span_key spans))"
  define out where "out = map chunk_tuple ks"
  have kv: "kv st = map (\<lambda>t. (span_key t, EmptyValue)) spans"
    using Put_accepted_store [OF assms(2)] assms(1) by simp
  have get: "getROI e' (kv st) = Inr out"
    using assms(3) by (simp add: getROI_def kv ProcessRange_posted out_def ks_def)
  have ks: "set ks = span_key ` set spans"
    by (simp add: ks_def)
  have set: "set out = set spans"
    by (simp add: out_def ks image_image chunk_tuple_span_key)
  have "map span_key out = map (\<lambda>k. k) ks"
    unfolding out_def map_map comp_def
    by (rule map_cong) (auto simp add: ks chunk_tuple_span_key)
  then have keys: "map span_key out = ks"
    by simp
  have strict: "sorted_wrt (<) (map span_key out)"
    unfolding keys by (simp add: strict_sorted_iff ks_def)
  have coords: "sorted_wrt (<) (map zyx_coords out) \<and> sorted (map zyx0_coords out)"
    if nn: "list_all non_negative_span spans"
  proof -
    have n: "non_negative_span t" if "t \<in> set out" for t
      using nn that by (simp add: set list_all_iff)
    have "sorted_wrt (\<lambda>a b. span_key a < span_key b) out"
      using strict by (simp add: sorted_wrt_map)
    then have c: "sorted_wrt (\<lambda>a b. zyx_coords a < zyx_coords b) out"
      by (rule sorted_wrt_mono_rel [rotated]) (simp add: span_key_less_coords n)
    then have "sorted_wrt (\<lambda>a b. zyx0_coords a \<le> zyx0_coords b) out"
      by (rule sorted_wrt_mono_rel [rotated]) (simp add: zyx_less_imp_zyx0_le)
    with c show ?thesis
      by (simp add: sorted_wrt_map)
  qed
  from get set strict coords show ?thesis
    by blast
qed

theorem C2_witness:
  "kv fresh_roi = []
   \<and> Put env_ok fresh_roi (Some [(1, 2, 3, 4), (0, 0, 0, 1)])
       = (posted [(1, 2, 3, 4), (0, 0, 0, 1)], None)
   \<and> store_ready env_ok
   \<and> list_all non_negative_span [(1, 2, 3, 4), (0, 0, 0, 1)]
   \<and> (\<exists>out. getROI env_ok (kv (posted [(1, 2, 3, 4), (0, 0, 0, 1)])) = Inr out
         \<and> set out = set [(1, 2, 3, 4), (0, 0, 0, 1)]
         \<and> sorted_wrt (<) (map span_key out)
         \<and> sorted_wrt (<) (map zyx_coords out)
         \<and> sorted (map zyx0_coords out))"
proof -
  let ?spans = "[(1, 2, 3, 4), (0, 0, 0, 1)] :: tuple list"
  have k: "kv fresh_roi = []"
    by (simp add: fresh_roi_def)
  have "snd (Put env_ok fresh_roi (Some ?spans)) = None"
    by code_simp
  then have p: "Put env_ok fresh_roi (Some ?spans) = (posted ?spans, None)"
    by (simp add: posted_def prod_eq_iff)
  have r: "store_ready env_ok"
    by (simp add: env_ok_def)
  have n: "list_all non_negative_span ?spans"
    by code_simp
  from C2_get_after_post [OF k p r] n k p r show ?thesis
    by blast
qed

section \<open>C3: a second POST keeps the spans of the first\<close>

text \<open>
  C3 (the code departs from the claim). After \<open>POST /roi\<close> of the span (0, 0, 0, 1) and then
  \<open>POST /roi\<close> of the span (1, 0, 0, 1), \<open>GET /roi\<close> returns both spans: \<open>Put\<close> deletes nothing.
\<close>

theorem C3_second_post_keeps_first:
  "getROI env_ok (kv (fst (Put env_ok (posted [(0, 0, 0, 1)]) (Some [(1, 0, 0, 1)]))))
     = Inr [(0, 0, 0, 1), (1, 0, 0, 1)]
   \<and> snd (Put env_ok (posted [(0, 0, 0, 1)]) (Some [(1, 0, 0, 1)])) = None"
  by code_simp

section \<open>C4: partitioning an empty and a one-block ROI\<close>

lemma Partition_empty:
  assumes "batchsize \<noteq> 0" and "store_ready e"
  shows "Partition e d [] batchsize =
         Some (Returned \<lparr>NumTotalBlocks = 0, NumActiveBlocks = 0, NumSubvolumes = 0,
                          Subvolumes = []\<rparr>)"
  using assms by (simp add: Partition_def ProcessRange_def newLayer_def)

text \<open>
  C4 (the code departs from the claim). The ROI holds the one block (9, 7, 5) and the batch
  size is 8. The block's column has one active block, fewer than \<open>8 * 8 * 8 / 10 = 51\<close>, so
  it is merged into the last subvolume; there is none, and indexing it panics.
\<close>

theorem C4_one_block_panics:
  "Partition env_ok (props (posted [(5, 7, 9, 9)])) (kv (posted [(5, 7, 9, 9)])) 8
     = Some (Panicked IndexOutOfRange)"
  by code_simp

section \<open>C5: the corner of a merged subvolume\<close>

text \<open>
  C5 (the code departs from the claim). The ROI holds the spans x in [0, 2] and x = 5 at
  y = 0, z = 0, and the batch size is 3: the layer is z in [0, 2], the row y in [0, 3], the
  columns x in [0, 2] and [3, 5]. The second column has one active block, fewer than
  \<open>27 / 10 = 2\<close>, and is merged: the subvolume's \<open>MaxCorner\<close> becomes the minimum voxel
  (160, 96, 64) of the block (5, 3, 2), not its maximum voxel (191, 127, 95).
\<close>

theorem C5_merge_sets_min_voxel:
  "Partition env_ok (props (posted [(0, 0, 0, 2), (0, 0, 5, 5)]))
     (kv (posted [(0, 0, 0, 2), (0, 0, 5, 5)])) 3
     = Some (Returned \<lparr>NumTotalBlocks = 72, NumActiveBlocks = 4, NumSubvolumes = 1,
          Subvolumes = [\<lparr>MinCorner = (0, 0, 0), MaxCorner = (160, 96, 64),
                          TotalBlocks = 72, ActiveBlocks = 4\<rparr>]\<rparr>)
   \<and> MinPoint (5, 3, 2) (32, 32, 32) = (160, 96, 64)
   \<and> MaxPoint (5, 3, 2) (32, 32, 32) = (191, 127, 95)"
  by code_simp

section \<open>C6: the layers in Z\<close>

text \<open>
  C6 (the code departs from the claim). The ROI holds one block at each of z = 0, 1, 2, so
  \<open>MinZ = 0\<close>, \<open>MaxZ = 2\<close>, and the batch size is 2: \<open>(MaxZ - MinZ + 1) mod 2 = 1\<close>. The first
  layer is z in [0, 1], with no extra Z, and the second is z in [2, 4], past \<open>MaxZ\<close>: with
  block size 32 the subvolumes span the voxels z in [0, 63] and z in [64, 159].
\<close>

theorem C6_first_layer_gets_no_extra:
  "Partition env_ok (props (posted [(0, 0, 0, 0), (1, 0, 0, 0), (2, 0, 0, 0)]))
     (kv (posted [(0, 0, 0, 0), (1, 0, 0, 0), (2, 0, 0, 0)])) 2
     = Some (Returned \<lparr>NumTotalBlocks = 45, NumActiveBlocks = 3, NumSubvolumes = 2,
          Subvolumes = [\<lparr>MinCorner = (0, 0, 0), MaxCorner = (95, 95, 63),
                          TotalBlocks = 18, ActiveBlocks = 2\<rparr>,
                        \<lparr>MinCorner = (0, 0, 64), MaxCorner = (95, 95, 159),
                          TotalBlocks = 27, ActiveBlocks = 1\<rparr>]\<rparr>)
   \<and> MinZ (props (posted [(0, 0, 0, 0), (1, 0, 0, 0), (2, 0, 0, 0)])) = 0
   \<and> MaxZ (props (posted [(0, 0, 0, 0), (1, 0, 0, 0), (2, 0, 0, 0)])) = 2"
  by code_simp

section \<open>C7: the index encoding round-trips\<close>

text \<open>
  C7. Every RLE index encodes to exactly 16 bytes: Z, Y, X0 and the span, four bytes each,
  big-endian. Decoding the encoding gives the index back, and decoding any byte string
  fails exactly when it is not 16 bytes long.
\<close>

theorem C7_index_roundtrip:
  "length (indexRLE_Bytes i) = 16
   \<and> indexRLE_Bytes i = be32 (iz (start i)) @ be32 (iy (start i)) @ be32 (ix (start i)) @ be32 (span i)
   \<and> indexRLE_IndexFromBytes (indexRLE_Bytes i) = Inr i
   \<and> (isl (indexRLE_IndexFromBytes b) \<longleftrightarrow> length b \<noteq> 16)"
proof -
  have "indexRLE_Bytes i =
        be32 (iz (start i)) @ be32 (iy (start i)) @ be32 (ix (start i)) @ be32 (span i)"
    by (simp add: indexRLE_Bytes_def IndexZYX_Bytes_def)
  then show ?thesis
    using length_indexRLE_Bytes [of i] indexRLE_roundtrip [of i] indexRLE_decode_fails_iff [of b]
    by simp
qed

section \<open>C8: the Z extent kept by POST /roi\<close>
























section \<open>C9: the read-only mode\<close>

lemma status_BadRequest: "status (BadRequest r m) = 400"
  by (simp add: BadRequest_def StatusBadRequest_def)






















section \<open>C10: GET /partition without a usable batchsize\<close>

lemma digit_value_is_digit: "digit_value c = Some v \<Longrightarrow> is_digit c"
  unfolding digit_value_def is_digit_def
  by (drule map_of_SomeD, drule set_zip_leftD) simp

lemma parse_digits_all_digits: "parse_digits acc s = Some n \<Longrightarrow> list_all is_digit s"
  by (induction s arbitrary: acc) (auto split: option.splits dest: digit_value_is_digit)

lemma parse_unsigned_digits: "parse_unsigned s = Some n \<Longrightarrow> s \<noteq> [] \<and> list_all is_digit s"
  by (auto simp add: parse_unsigned_def split: if_splits dest: parse_digits_all_digits)

lemma Atoi_Some_decimal: "Atoi s = Some n \<Longrightarrow> is_decimal_integer s"
  unfolding Atoi_def is_decimal_integer_def
  by (cases s) (auto simp add: Let_def split: if_splits option.splits dest!: parse_unsigned_digits)

lemma Atoi_not_decimal: "\<not> is_decimal_integer s \<Longrightarrow> Atoi s = None"
  using Atoi_Some_decimal by (cases "Atoi s") auto

lemma Values_Get_missing: "map_of q k = None \<Longrightarrow> Values_Get q k = []"
  by (simp add: Values_Get_def)

text \<open>
  C10. A request for \<open>partition\<close> with method GET whose query has no \<open>batchsize\<close>, or one
  that is not a decimal integer, is answered with status 400, and \<open>Partition\<close> is not called
  with any batch size: there is no default, whatever the help text says.
\<close>

theorem C10_partition_needs_batchsize:
  assumes "url_parts (Path r) = Inr parts" and "3 < length parts"
    and "parts ! 3 = ''partition''"
    and "ToLower (Method r) = ''get''"
    and "map_of (Query r) ''batchsize'' = None
         \<or> \<not> is_decimal_integer (Values_Get (Query r) ''batchsize'')"
  shows "(\<exists>resp. ServeHTTP ctx_err atoi_error r = Replies resp \<and> status resp = 400)
         \<and> (\<forall>b. ServeHTTP ctx_err atoi_error r \<noteq> Calls (OpPartition b))"
proof -
  have "\<not> is_decimal_integer (Values_Get (Query r) ''batchsize'')"
  proof (cases "map_of (Query r) ''batchsize''")
    case None
    then show ?thesis by (simp add: Values_Get_missing is_decimal_integer_def)
  next
    case (Some vs)
    with assms(5) show ?thesis by simp
  qed
  then have none: "Atoi (Values_Get (Query r) ''batchsize'') = None"
    by (rule Atoi_not_decimal)
  show ?thesis
  proof (cases ctx_err)
    case (Some m)
    then show ?thesis by (simp add: ServeHTTP_def status_BadRequest)
  next
    case None
    then have "ServeHTTP ctx_err atoi_error r =
               Replies (BadRequest r (''Error reading batchsize query string: ''
                 @ atoi_error (Values_Get (Query r) ''batchsize'')))"
      using assms(1-4) none by (simp add: ServeHTTP_def)
    then show ?thesis by (simp add: status_BadRequest)
  qed
qed

theorem C10_witness:
  "(\<exists>resp. ServeHTTP None sample_atoi_error (partition_request []) = Replies resp \<and> status resp = 400)
   \<and> (\<forall>b. ServeHTTP None sample_atoi_error (partition_request []) \<noteq> Calls (OpPartition b))
   \<and> (\<exists>resp. ServeHTTP None sample_atoi_error (partition_request [(''batchsize'', [''8.0''])]) = Replies resp
         \<and> status resp = 400)
   \<and> (\<forall>b. ServeHTTP None sample_atoi_error (partition_request [(''batchsize'', [''8.0''])])
         \<noteq> Calls (OpPartition b))"
proof -
  let ?parts = "[''node'', ''3f8c'', ''medulla'', ''partition'']"
  have p: "url_parts (Path (partition_request q)) = Inr ?parts" for q
    by (simp add: partition_request_def url_parts_def WebAPIPath_def)
  have l: "3 < length ?parts" and c: "?parts ! 3 = ''partition''"
    by simp_all
  have m: "ToLower (Method (partition_request q)) = ''get''" for q
    by (simp add: partition_request_def ToLower_def lower_char_def)
  have b1: "map_of (Query (partition_request [])) ''batchsize'' = None
            \<or> \<not> is_decimal_integer (Values_Get (Query (partition_request [])) ''batchsize'')"
    by (simp add: partition_request_def)
  have b2: "map_of (Query (partition_request [(''batchsize'', [''8.0''])])) ''batchsize'' = None
            \<or> \<not> is_decimal_integer
                 (Values_Get (Query (partition_request [(''batchsize'', [''8.0''])])) ''batchsize'')"
    by (simp add: partition_request_def Values_Get_def is_decimal_integer_def is_digit_def)
  show ?thesis
    using C10_partition_needs_batchsize [OF p l c m b1, of None sample_atoi_error]
      C10_partition_needs_batchsize [OF p l c m b2, of None sample_atoi_error]
    by blast
qed


end
